theory Spec2Isabelle
  imports Main
begin

section \<open>The chatbot of \<^verbatim>\<open>src/chatbot.py\<close>\<close>

text \<open>
  The module keeps three process-wide dictionaries (the conversation cache, the cooldown
  flags and the last-interaction records) and handles one Discord message at a time in
  \<^verbatim>\<open>on_message\<close>, which calls \<^verbatim>\<open>chat_with_openai\<close>. The model below passes the
  dictionaries explicitly as a state record, returns the exception that leaves a handler
  as a value, and records what a handler does to its collaborators (messages sent, the
  completion request, tasks created) in a list of events, in the order of the source.

  The collaborators are parameters: the clock, the file system, the completion service
  and the bot's identity form the environment of one handler run. One run of a handler
  is modelled without interleaving with other handlers. \<^verbatim>\<open>channel.send\<close> raises when
  its text is longer than Discord's limit of 2000 characters, the limit of lines 63 to 69;
  within the limit sending is taken not to raise, and so is the logger, whose calls are
  left out of the event list. The
  dictionaries \<^verbatim>\<open>user_last_channel\<close> and \<^verbatim>\<open>user_last_interaction_time\<close> and the
  setting \<^verbatim>\<open>allowed_channel_ids\<close> are never used by the handlers and are left out.
\<close>

subsection \<open>Exceptions, settings, messages\<close>

datatype py_error =
    AttributeError
  | FileNotFoundError
  | IndexError
  | OpenAIError string
  | HTTPException
  | OtherException string

text \<open>
  \<^verbatim>\<open>class Settings\<close>: the fields the handlers read. \<^verbatim>\<open>max_cache\<close> and
  \<^verbatim>\<open>cooldown_time\<close> are Python ints with no validation.
\<close>

record Settings =
  max_cache :: int
  cooldown_time :: int
  openai_model :: string
  system_message_file :: string

text \<open>
  The property \<^verbatim>\<open>Settings.system_message\<close> opens and reads the file on every access;
  the file system is a map from paths to contents, a missing file raises.
\<close>

definition system_message :: "(string \<rightharpoonup> string) \<Rightarrow> Settings \<Rightarrow> py_error + string" where
  "system_message fs s =
     (case fs (system_message_file s) of
        None \<Rightarrow> Inl FileNotFoundError
      | Some text \<Rightarrow> Inr text)"

text \<open>
  \<^verbatim>\<open>message.reference.resolved\<close> is, in discord.py, a message, a
  \<^verbatim>\<open>DeletedReferencedMessage\<close> (which has no \<^verbatim>\<open>author\<close>) or \<^verbatim>\<open>None\<close>. Of a
  resolved message only the author's id is read.
\<close>

datatype resolved =
    ResolvedNone
  | DeletedReferencedMessage
  | ResolvedMessage int

record message =
  author_bot :: bool
  author_id :: int
  content :: string
  channel_id :: int
  mentions :: "int list"
  reference :: "resolved option"

subsection \<open>State, environment, events\<close>

text \<open>
  A cached turn is the tuple \<^verbatim>\<open>(role, content)\<close>; a prompt entry, the dictionary
  \<^verbatim>\<open>{"role": r, "content": c}\<close>, is modelled as the same pair. A datetime is the number
  of microseconds since \<^verbatim>\<open>datetime.min\<close>, so \<^verbatim>\<open>datetime.min\<close> is 0.
\<close>

type_synonym turn = "string \<times> string"

record interaction =
  time :: int
  channel :: "int option"

record state =
  user_message_cache :: "int \<rightharpoonup> turn list"
  user_cooldown :: "int \<rightharpoonup> int"
  user_last_interaction :: "int \<rightharpoonup> interaction"
  SYSTEM_MESSAGE :: string

record env =
  settings :: Settings
  bot_user_id :: int
  files :: "string \<rightharpoonup> string"
  utcnow_at_gate :: int
  utcnow_at_record :: int
  ChatCompletion_create :: "string \<Rightarrow> turn list \<Rightarrow> py_error + string"

text \<open>
  \<open>utcnow_at_gate\<close> is what \<^verbatim>\<open>datetime.utcnow()\<close> returns on line 94 of a handler run and
  \<open>utcnow_at_record\<close> what it returns on line 109.
  \<open>ChatCompletion_create e model messages\<close> is the completion service's answer:
  the reply text \<^verbatim>\<open>response["choices"][0]["message"]["content"]\<close>, or the exception
  raised by the call. A malformed response, whose reading raises on line 142, is folded
  into the same case; the event list then holds one cancel of the typing task where the
  code, having cancelled on line 141, cancels again in the handler.
\<close>

datatype event =
    Typing_enter int
  | Typing_exit int
  | Send int string
  | Create_task_keep_typing int
  | Typing_task_cancel
  | Completion_request string "turn list"
  | Create_task_cooldown_user int

subsection \<open>Library behaviour the handlers rely on\<close>

text \<open>\<^verbatim>\<open>defaultdict.__getitem__\<close>: a missing key is inserted with the default.\<close>

definition dd_getitem :: "('k \<rightharpoonup> 'v) \<Rightarrow> 'v \<Rightarrow> 'k \<Rightarrow> 'v \<times> ('k \<rightharpoonup> 'v)" where
  "dd_getitem d dflt k =
     (case d k of
        None \<Rightarrow> (dflt, d(k \<mapsto> dflt))
      | Some v \<Rightarrow> (v, d))"

text \<open>\<^verbatim>\<open>deque.popleft\<close> raises \<^verbatim>\<open>IndexError\<close> on an empty deque.\<close>

definition popleft :: "'a list \<Rightarrow> py_error + ('a \<times> 'a list)" where
  "popleft d = (case d of [] \<Rightarrow> Inl IndexError | x # rest \<Rightarrow> Inr (x, rest))"

text \<open>
  \<^verbatim>\<open>channel.send\<close>: a text over 2000 characters is refused by the platform and the call
  raises \<^verbatim>\<open>discord.HTTPException\<close>.
\<close>

definition channel_send :: "int \<Rightarrow> string \<Rightarrow> py_error + event" where
  "channel_send ch text =
     (if length text > 2000 then Inl HTTPException else Inr (Send ch text))"

definition timedelta_seconds :: "int \<Rightarrow> int" where
  "timedelta_seconds s = s * 1000000"

subsection \<open>The spec's observers, on the code's dictionaries\<close>

text \<open>
  The spec names \<^verbatim>\<open>ConversationCache.read\<close>, \<^verbatim>\<open>isOnCooldown\<close> and
  \<^verbatim>\<open>InteractionTracker.get\<close>; in the code they are the lookups
  \<^verbatim>\<open>user_message_cache[u]\<close>, the truth value of \<^verbatim>\<open>user_cooldown[u]\<close> and
  \<^verbatim>\<open>user_last_interaction[u]\<close>, each with its \<^verbatim>\<open>defaultdict\<close> default.
\<close>

definition ConversationCache_read :: "state \<Rightarrow> int \<Rightarrow> turn list" where
  "ConversationCache_read st u = fst (dd_getitem (user_message_cache st) [] u)"

definition isOnCooldown :: "state \<Rightarrow> int \<Rightarrow> bool" where
  "isOnCooldown st u = (fst (dd_getitem (user_cooldown st) 0 u) \<noteq> 0)"

definition InteractionTracker_get :: "state \<Rightarrow> int \<Rightarrow> interaction" where
  "InteractionTracker_get st u =
     fst (dd_getitem (user_last_interaction st) \<lparr>time = 0, channel = None\<rparr> u)"

subsection \<open>\<^verbatim>\<open>split_message\<close> and \<^verbatim>\<open>send_large_message\<close>\<close>

function split_message :: "string \<Rightarrow> nat \<Rightarrow> string list" where
  "split_message content_str limit =
     (if content_str = [] \<or> limit = 0 then []
      else take limit content_str # split_message (drop limit content_str) limit)"
  by pat_completeness auto
termination
  by (relation "measure (\<lambda>(c, l). length c)") auto

declare split_message.simps [simp del]

definition send_large_message :: "int \<Rightarrow> string \<Rightarrow> event list" where
  "send_large_message ch content_str = map (Send ch) (split_message content_str 2000)"

subsection \<open>\<^verbatim>\<open>cooldown_user\<close>\<close>

text \<open>
  The task sleeps \<^verbatim>\<open>cooldown_time\<close> seconds and then clears the flag; the model is its
  effect on the state when it resumes.
\<close>

definition cooldown_user :: "int \<Rightarrow> state \<Rightarrow> state" where
  "cooldown_user user_id st = st\<lparr>user_cooldown := (user_cooldown st)(user_id \<mapsto> 0)\<rparr>"

subsection \<open>\<^verbatim>\<open>chat_with_openai\<close>\<close>

text \<open>Lines 129 to 134: the prompt.\<close>

definition build_messages :: "string \<Rightarrow> turn list \<Rightarrow> string \<Rightarrow> turn list" where
  "build_messages sys cache msg =
     (''system'', sys) # map (\<lambda>(role, msg_content). (role, msg_content)) cache
       @ [(''user'', msg)]"

text \<open>
  Lines 137 to 165, the body of the \<^verbatim>\<open>try\<close>. An exception leaves it with the state
  it was entered in (the first mutation, \<^verbatim>\<open>popleft\<close>, is also the last statement that
  can raise) and with the events so far.
\<close>

definition try_body ::
  "env \<Rightarrow> message \<Rightarrow> turn list \<Rightarrow> state \<Rightarrow> (py_error \<times> event list) + (state \<times> event list)" where
  "try_body e m messages st =
     (let u = author_id m;
          request = Completion_request (openai_model (settings e)) messages
      in case ChatCompletion_create e (openai_model (settings e)) messages of
           Inl err \<Rightarrow> Inl (err, [request])
         | Inr ai_message \<Rightarrow>
             (let evs = request # Typing_task_cancel # send_large_message (channel_id m) ai_message;
                  cache = fst (dd_getitem (user_message_cache st) [] u);
                  popped =
                    (if int (length cache) \<ge> max_cache (settings e)
                     then map_sum id snd (popleft cache)
                     else Inr cache)
              in case popped of
                   Inl err \<Rightarrow> Inl (err, evs)
                 | Inr cache' \<Rightarrow>
                     Inr (st\<lparr>user_message_cache :=
                               (user_message_cache st)
                                 (u \<mapsto> cache' @ [(''user'', content m), (''assistant'', ai_message)]),
                             user_cooldown :=
                               (user_cooldown st)(u \<mapsto> cooldown_time (settings e))\<rparr>,
                          evs @ [Create_task_cooldown_user u])))"

definition chat_with_openai ::
  "env \<Rightarrow> message \<Rightarrow> state \<Rightarrow> state \<times> event list \<times> py_error option" where
  "chat_with_openai e m st =
     (let u = author_id m;
          ch = channel_id m;
          (cd, cooldowns) = dd_getitem (user_cooldown st) 0 u;
          st1 = st\<lparr>user_cooldown := cooldowns\<rparr>
      in if cd \<noteq> 0
         then (st1, [Send ch ''Please wait a bit before chatting again!''], None)
         else
           (case system_message (files e) (settings e) of
              Inl err \<Rightarrow> (st1, [Create_task_keep_typing ch], Some err)
            | Inr sys \<Rightarrow>
                (let (cache, caches) = dd_getitem (user_message_cache st1) [] u;
                     st2 = st1\<lparr>user_message_cache := caches\<rparr>;
                     messages = build_messages sys cache (content m)
                 in case try_body e m messages st2 of
                      Inr (st3, evs) \<Rightarrow> (st3, Create_task_keep_typing ch # evs, None)
                    | Inl (err, evs) \<Rightarrow>
                        (case err of
                           OpenAIError s \<Rightarrow>
                             (case channel_send ch (''An error occurred: '' @ s) of
                                Inl exn \<Rightarrow>
                                  (st2,
                                   Create_task_keep_typing ch # evs @ [Typing_task_cancel],
                                   Some exn)
                              | Inr sent \<Rightarrow>
                                  (st2,
                                   Create_task_keep_typing ch # evs
                                     @ [Typing_task_cancel, sent],
                                   None))
                         | _ \<Rightarrow>
                             (st2,
                              Create_task_keep_typing ch # evs @ [Typing_task_cancel],
                              None)))))"

subsection \<open>\<^verbatim>\<open>on_message\<close>\<close>

text \<open>
  Lines 90 to 92. \<^verbatim>\<open>message.reference and ...\<close> is falsy without a reference;
  with one, \<^verbatim>\<open>.resolved.author\<close> raises \<^verbatim>\<open>AttributeError\<close> unless the reference is
  resolved to a message.
\<close>

definition replied_to_bot :: "env \<Rightarrow> message \<Rightarrow> py_error + bool" where
  "replied_to_bot e m =
     (case reference m of
        None \<Rightarrow> Inr False
      | Some ResolvedNone \<Rightarrow> Inl AttributeError
      | Some DeletedReferencedMessage \<Rightarrow> Inl AttributeError
      | Some (ResolvedMessage a) \<Rightarrow> Inr (a = bot_user_id e))"

text \<open>
  Lines 89 to 99, the engagement gate: the decision, and the state after the
  \<^verbatim>\<open>defaultdict\<close> lookup of line 93. The reply test of lines 90 to 92 is evaluated
  before anything else is combined, so its exception leaves the gate even when the bot is
  mentioned.
\<close>

definition engagement_gate :: "env \<Rightarrow> message \<Rightarrow> state \<Rightarrow> py_error + (bool \<times> state)" where
  "engagement_gate e m st =
     (let mentioned = (bot_user_id e \<in> set (mentions m))
      in case replied_to_bot e m of
           Inl err \<Rightarrow> Inl err
         | Inr replied \<Rightarrow>
             (let (last_interaction, interactions) =
                    dd_getitem (user_last_interaction st)
                      \<lparr>time = 0, channel = None\<rparr> (author_id m);
                  within_timeframe =
                    (utcnow_at_gate e - time last_interaction \<le> timedelta_seconds 120);
                  same_channel = (channel last_interaction = Some (channel_id m))
              in Inr (mentioned \<or> replied \<or> (within_timeframe \<and> same_channel),
                      st\<lparr>user_last_interaction := interactions\<rparr>)))"

text \<open>
  The handler. \<^verbatim>\<open>async with message.channel.typing()\<close> is entered and left around the
  call; the interaction record is written on line 108 whenever \<^verbatim>\<open>chat_with_openai\<close>
  returns, and skipped when an exception passes through.
\<close>

definition on_message ::
  "env \<Rightarrow> message \<Rightarrow> state \<Rightarrow> state \<times> event list \<times> py_error option" where
  "on_message e m st =
     (if author_bot m then (st, [], None)
      else
        (case engagement_gate e m st of
           Inl err \<Rightarrow> (st, [], Some err)
         | Inr (admitted, st1) \<Rightarrow>
             if \<not> admitted then (st1, [], None)
             else
               (case chat_with_openai e m st1 of
                  (st2, evs, Some err) \<Rightarrow>
                    (st2, Typing_enter (channel_id m) # evs @ [Typing_exit (channel_id m)],
                     Some err)
                | (st2, evs, None) \<Rightarrow>
                    (st2\<lparr>user_last_interaction :=
                           (user_last_interaction st2)
                             (author_id m \<mapsto>
                                \<lparr>time = utcnow_at_record e, channel = Some (channel_id m)\<rparr>)\<rparr>,
                     Typing_enter (channel_id m) # evs @ [Typing_exit (channel_id m)],
                     None))))"

subsection \<open>Start-up\<close>

text \<open>
  Lines 44 to 50 and 74 to 76: the dictionaries start empty and \<^verbatim>\<open>SYSTEM_MESSAGE\<close>
  is read, once, from \<^verbatim>\<open>system_message_copy.txt\<close>. The construction of
  \<^verbatim>\<open>Settings\<close> on line 35 is left out; the settings are part of the environment.
\<close>

definition startup :: "(string \<rightharpoonup> string) \<Rightarrow> py_error + state" where
  "startup fs =
     (case fs ''system_message_copy.txt'' of
        None \<Rightarrow> Inl FileNotFoundError
      | Some text \<Rightarrow>
          Inr \<lparr>user_message_cache = Map.empty, user_cooldown = Map.empty,
               user_last_interaction = Map.empty, SYSTEM_MESSAGE = text\<rparr>)"

subsection \<open>Reading the event list\<close>

text \<open>The completion requests among the events of a run, in order.\<close>

fun requests :: "event list \<Rightarrow> (string \<times> turn list) list" where
  "requests [] = []"
| "requests (Completion_request model messages # evs) = (model, messages) # requests evs"
| "requests (_ # evs) = requests evs"

subsection \<open>Concrete inputs\<close>

text \<open>The defaults of \<^verbatim>\<open>class Settings\<close>.\<close>

definition default_settings :: Settings where
  "default_settings =
     \<lparr>max_cache = 5, cooldown_time = 2, openai_model = ''gpt-3.5-turbo-16k'',
      system_message_file = ''./system_message.txt''\<rparr>"

text \<open>
  An environment in which the bot has id 1, the system-message file exists, the clock reads
  \<open>t\<close> and then \<open>t + 1\<close>, and the completion service answers every request with \<open>r\<close>.
\<close>

definition env_with :: "int \<Rightarrow> (py_error + string) \<Rightarrow> env" where
  "env_with t r =
     \<lparr>settings = default_settings, bot_user_id = 1,
      files = [''./system_message.txt'' \<mapsto> ''Be kind.''],
      utcnow_at_gate = t, utcnow_at_record = t + 1,
      ChatCompletion_create = (\<lambda>model messages. r)\<rparr>"

text \<open>User 7 says hello in channel 3, mentioning the bot.\<close>

definition hello :: message where
  "hello =
     \<lparr>author_bot = False, author_id = 7, content = ''hello'', channel_id = 3,
      mentions = [1], reference = None\<rparr>"

definition empty_state :: state where
  "empty_state =
     \<lparr>user_message_cache = Map.empty, user_cooldown = Map.empty,
      user_last_interaction = Map.empty, SYSTEM_MESSAGE = ''Be kind.''\<rparr>"

text \<open>One handled message followed by the expiry of the author's cooldown.\<close>

definition exchange :: "env \<Rightarrow> message \<Rightarrow> state \<Rightarrow> state" where
  "exchange e m st = cooldown_user (author_id m) (fst (on_message e m st))"

text \<open>A cache of six turns for user 7, as three exchanges leave it.\<close>

definition six_turns :: state where
  "six_turns =
     empty_state\<lparr>user_message_cache :=
       [7 \<mapsto> [(''user'', ''a''), (''assistant'', ''b''), (''user'', ''c''),
              (''assistant'', ''d''), (''user'', ''e''), (''assistant'', ''f'')]]\<rparr>"

text \<open>The state after one successful exchange of user 7, the cooldown still running.\<close>

definition on_cooldown :: state where
  "on_cooldown = fst (on_message (env_with 1000 (Inr ''hi'')) hello empty_state)"

text \<open>
  The state \<^verbatim>\<open>chat_with_openai\<close> leaves when it gets past the cooldown check and the
  prompt but appends nothing: the two \<^verbatim>\<open>defaultdict\<close> lookups have created the
  user's entries.
\<close>

definition touched :: "state \<Rightarrow> int \<Rightarrow> state" where
  "touched st u =
     st\<lparr>user_cooldown := snd (dd_getitem (user_cooldown st) 0 u),
        user_message_cache := snd (dd_getitem (user_message_cache st) [] u)\<rparr>"

section \<open>Properties\<close>

subsection \<open>Lookups and the event list\<close>

lemmas obs_defs = ConversationCache_read_def isOnCooldown_def InteractionTracker_get_def

lemmas model_defs = on_message_def engagement_gate_def chat_with_openai_def try_body_def
  replied_to_bot_def dd_getitem_def system_message_def build_messages_def popleft_def
  timedelta_seconds_def channel_send_def

lemmas sample_defs = env_with_def hello_def empty_state_def default_settings_def

lemma dd_getitem_fst_snd [simp]:
  "fst (dd_getitem (snd (dd_getitem d x k)) x k') = fst (dd_getitem d x k')"
  by (simp add: dd_getitem_def split: option.splits)

lemma dd_getitem_upd [simp]:
  "fst (dd_getitem (d(k \<mapsto> v)) x k') = (if k' = k then v else fst (dd_getitem d x k'))"
  by (simp add: dd_getitem_def split: option.splits)

lemma build_messages_eq:
  "build_messages sys cache msg = (''system'', sys) # cache @ [(''user'', msg)]"
  by (simp add: build_messages_def)

lemma touched_obs [simp]:
  "ConversationCache_read (touched st u) v = ConversationCache_read st v"
  "isOnCooldown (touched st u) v = isOnCooldown st v"
  "InteractionTracker_get (touched st u) v = InteractionTracker_get st v"
  by (simp_all add: touched_def obs_defs)

lemma requests_append [simp]: "requests (xs @ ys) = requests xs @ requests ys"
  by (induction xs rule: requests.induct) simp_all

lemma requests_sends [simp]: "requests (map (Send ch) xs) = []"
  by (induction xs) simp_all

lemma requests_send_large_message [simp]: "requests (send_large_message ch r) = []"
  by (simp add: send_large_message_def)

subsection \<open>The paths through \<^verbatim>\<open>chat_with_openai\<close>\<close>

lemma chat_cooldown:
  assumes "isOnCooldown st (author_id m)"
  shows "chat_with_openai e m st =
           (st, [Send (channel_id m) ''Please wait a bit before chatting again!''], None)"
  using assms
  by (auto simp: chat_with_openai_def isOnCooldown_def dd_getitem_def split: option.splits)

lemma chat_file_missing:
  assumes "\<not> isOnCooldown st (author_id m)"
    and "system_message (files e) (settings e) = Inl err"
  shows "chat_with_openai e m st =
           (st\<lparr>user_cooldown := snd (dd_getitem (user_cooldown st) 0 (author_id m))\<rparr>,
            [Create_task_keep_typing (channel_id m)], Some err)"
  using assms
  by (cases "dd_getitem (user_cooldown st) 0 (author_id m)")
     (simp add: chat_with_openai_def isOnCooldown_def Let_def)

lemma chat_failure_returns:
  assumes "\<not> isOnCooldown st (author_id m)"
    and "system_message (files e) (settings e) = Inr sys"
    and "ChatCompletion_create e (openai_model (settings e))
           (build_messages sys (ConversationCache_read st (author_id m)) (content m)) = Inl err"
    and "\<And>s. err = OpenAIError s \<Longrightarrow> length (''An error occurred: '' @ s) \<le> 2000"
  shows "\<exists>evs. chat_with_openai e m st = (touched st (author_id m), evs, None)"
  using assms
  apply (cases "dd_getitem (user_cooldown st) 0 (author_id m)")
  apply (cases "dd_getitem (user_message_cache st) [] (author_id m)")
  apply (cases err)
       apply (auto simp: chat_with_openai_def touched_def isOnCooldown_def
        ConversationCache_read_def try_body_def channel_send_def Let_def)
  done

lemma chat_failure_raises:
  assumes "\<not> isOnCooldown st (author_id m)"
    and "system_message (files e) (settings e) = Inr sys"
    and "ChatCompletion_create e (openai_model (settings e))
           (build_messages sys (ConversationCache_read st (author_id m)) (content m))
         = Inl (OpenAIError s)"
    and "2000 < length (''An error occurred: '' @ s)"
  shows "\<exists>evs. chat_with_openai e m st =
           (touched st (author_id m), evs, Some HTTPException)"
  using assms
  apply (cases "dd_getitem (user_cooldown st) 0 (author_id m)")
  apply (cases "dd_getitem (user_message_cache st) [] (author_id m)")
  apply (auto simp: chat_with_openai_def touched_def isOnCooldown_def
        ConversationCache_read_def try_body_def channel_send_def Let_def)
  done

lemma chat_success:
  assumes "\<not> isOnCooldown st (author_id m)"
    and "system_message (files e) (settings e) = Inr sys"
    and "ChatCompletion_create e (openai_model (settings e))
           (build_messages sys (ConversationCache_read st (author_id m)) (content m)) = Inr r"
    and "ConversationCache_read st (author_id m) \<noteq> []
         \<or> int (length (ConversationCache_read st (author_id m))) < max_cache (settings e)"
  shows "chat_with_openai e m st =
           (st\<lparr>user_message_cache :=
                 (user_message_cache st)
                   (author_id m \<mapsto>
                      (if int (length (ConversationCache_read st (author_id m)))
                            \<ge> max_cache (settings e)
                       then tl (ConversationCache_read st (author_id m))
                       else ConversationCache_read st (author_id m))
                      @ [(''user'', content m), (''assistant'', r)]),
               user_cooldown := (user_cooldown st)(author_id m \<mapsto> cooldown_time (settings e))\<rparr>,
            [Create_task_keep_typing (channel_id m),
             Completion_request (openai_model (settings e))
               (build_messages sys (ConversationCache_read st (author_id m)) (content m)),
             Typing_task_cancel]
              @ send_large_message (channel_id m) r
              @ [Create_task_cooldown_user (author_id m)],
            None)"
  using assms
  apply (cases "dd_getitem (user_cooldown st) 0 (author_id m)")
  apply (cases "dd_getitem (user_message_cache st) [] (author_id m)")
  apply (cases "ConversationCache_read st (author_id m)")
   apply (auto simp: chat_with_openai_def isOnCooldown_def ConversationCache_read_def
      try_body_def Let_def popleft_def dd_getitem_def split: option.splits)
  done

lemma try_body_requests:
  "requests (case try_body e m msgs st of Inl (err, evs) \<Rightarrow> evs | Inr (st', evs) \<Rightarrow> evs)
     = [(openai_model (settings e), msgs)]"
  by (simp add: try_body_def Let_def split: sum.splits)

lemma chat_requests:
  assumes "\<not> isOnCooldown st (author_id m)"
    and "system_message (files e) (settings e) = Inr sys"
  shows "requests (fst (snd (chat_with_openai e m st))) =
           [(openai_model (settings e),
             build_messages sys (ConversationCache_read st (author_id m)) (content m))]"
proof -
  obtain cd cds where cd: "dd_getitem (user_cooldown st) 0 (author_id m) = (cd, cds)"
    by (cases "dd_getitem (user_cooldown st) 0 (author_id m)")
  obtain c cs where c: "dd_getitem (user_message_cache st) [] (author_id m) = (c, cs)"
    by (cases "dd_getitem (user_message_cache st) [] (author_id m)")
  from assms(1) cd have "cd = 0" by (simp add: isOnCooldown_def)
  let ?st2 = "st\<lparr>user_cooldown := cds, user_message_cache := cs\<rparr>"
  let ?msgs = "build_messages sys c (content m)"
  have "requests (fst (snd (chat_with_openai e m st))) =
          requests (case try_body e m ?msgs ?st2 of
                      Inl (err, evs) \<Rightarrow> evs | Inr (st', evs) \<Rightarrow> evs)"
    using cd c \<open>cd = 0\<close> assms(2)
    by (simp add: chat_with_openai_def channel_send_def Let_def
          split: sum.splits prod.splits py_error.splits)
  then show ?thesis
    using c by (simp add: try_body_requests ConversationCache_read_def)
qed

subsection \<open>The gate and the handler\<close>

lemma gate_state:
  assumes "engagement_gate e m st = Inr (b, st1)"
  shows "st1 = st\<lparr>user_last_interaction :=
                    snd (dd_getitem (user_last_interaction st)
                           \<lparr>time = 0, channel = None\<rparr> (author_id m))\<rparr>"
  using assms
  by (auto simp: engagement_gate_def Let_def split: sum.splits prod.splits)

lemma gate_obs:
  assumes "engagement_gate e m st = Inr (b, st1)"
  shows "ConversationCache_read st1 v = ConversationCache_read st v"
    and "isOnCooldown st1 v = isOnCooldown st v"
    and "InteractionTracker_get st1 v = InteractionTracker_get st v"
  by (simp_all add: gate_state [OF assms] obs_defs)

lemma on_message_admitted:
  assumes "\<not> author_bot m" and "engagement_gate e m st = Inr (True, st1)"
  shows "on_message e m st =
           (case chat_with_openai e m st1 of
              (st2, evs, Some err) \<Rightarrow>
                (st2, Typing_enter (channel_id m) # evs @ [Typing_exit (channel_id m)], Some err)
            | (st2, evs, None) \<Rightarrow>
                (st2\<lparr>user_last_interaction :=
                       (user_last_interaction st2)
                         (author_id m \<mapsto>
                            \<lparr>time = utcnow_at_record e, channel = Some (channel_id m)\<rparr>)\<rparr>,
                 Typing_enter (channel_id m) # evs @ [Typing_exit (channel_id m)], None))"
  using assms by (simp add: on_message_def)

text \<open>
  The decision of the gate when the reply test does not raise: a mention, a reply to the
  bot, or a message within 120 seconds of the recorded interaction and in its channel.
\<close>

lemma engagement_gate_decision:
  assumes "replied_to_bot e m = Inr replied"
  shows "map_sum id fst (engagement_gate e m st) =
           Inr (bot_user_id e \<in> set (mentions m) \<or> replied
                \<or> (utcnow_at_gate e - time (InteractionTracker_get st (author_id m))
                      \<le> timedelta_seconds 120
                    \<and> channel (InteractionTracker_get st (author_id m)) = Some (channel_id m)))"
  using assms
  by (cases "dd_getitem (user_last_interaction st) \<lparr>time = 0, channel = None\<rparr> (author_id m)")
     (simp add: engagement_gate_def InteractionTracker_get_def Let_def)

text \<open>
  Once the cache has reached \<^verbatim>\<open>max_cache\<close> turns, a successful exchange removes one
  turn and adds two.
\<close>

lemma cache_grows_at_capacity:
  assumes "\<not> isOnCooldown st (author_id m)"
    and "system_message (files e) (settings e) = Inr sys"
    and "ChatCompletion_create e (openai_model (settings e))
           (build_messages sys (ConversationCache_read st (author_id m)) (content m)) = Inr r"
    and "ConversationCache_read st (author_id m) \<noteq> []"
    and "int (length (ConversationCache_read st (author_id m))) \<ge> max_cache (settings e)"
  shows "length (ConversationCache_read (fst (chat_with_openai e m st)) (author_id m))
           = length (ConversationCache_read st (author_id m)) + 1"
proof -
  have ok: "ConversationCache_read st (author_id m) \<noteq> []
         \<or> int (length (ConversationCache_read st (author_id m))) < max_cache (settings e)"
    using assms(4) by simp
  show ?thesis
    using assms(4,5)
    by (simp add: chat_success [OF assms(1,2,3) ok] ConversationCache_read_def)
qed

section \<open>The claims\<close>

text \<open>
  C10. A message whose author is a bot account makes \<^verbatim>\<open>on_message\<close> return at once:
  the state is the one it was called in (no entry created or changed in any dictionary),
  nothing is sent, no task is created, and no exception is raised.
\<close>

theorem bot_author_ignored:
  "author_bot m \<Longrightarrow> on_message e m st = (st, [], None)"
  by (simp add: on_message_def)

theorem bot_author_ignored_witness:
  "author_bot (hello\<lparr>author_bot := True\<rparr>)
   \<and> on_message (env_with 1000 (Inr ''hi'')) (hello\<lparr>author_bot := True\<rparr>) empty_state
       = (empty_state, [], None)"
  using bot_author_ignored
    [of "hello\<lparr>author_bot := True\<rparr>" "env_with 1000 (Inr ''hi'')" empty_state]
  by simp

text \<open>
  C2. A successful exchange (the user is not on cooldown, the system message is read, the
  completion service returns the reply \<open>r\<close>, and \<^verbatim>\<open>popleft\<close> is not called on an empty
  deque) leaves the user's cache as the old one, without its oldest turn when its length
  had reached \<^verbatim>\<open>max_cache\<close>, followed by exactly the two turns
  \<^verbatim>\<open>("user", content)\<close> and \<^verbatim>\<open>("assistant", r)\<close>, in this order. The turns that stay
  keep their order.
\<close>

theorem successful_exchange_appends_pair:
  assumes "\<not> isOnCooldown st (author_id m)"
    and "system_message (files e) (settings e) = Inr sys"
    and "ChatCompletion_create e (openai_model (settings e))
           (build_messages sys (ConversationCache_read st (author_id m)) (content m)) = Inr r"
    and "ConversationCache_read st (author_id m) \<noteq> []
         \<or> int (length (ConversationCache_read st (author_id m))) < max_cache (settings e)"
  shows "ConversationCache_read (fst (chat_with_openai e m st)) (author_id m) =
           (if int (length (ConversationCache_read st (author_id m))) \<ge> max_cache (settings e)
            then tl (ConversationCache_read st (author_id m))
            else ConversationCache_read st (author_id m))
           @ [(''user'', content m), (''assistant'', r)]"
  by (simp add: chat_success [OF assms] ConversationCache_read_def)

theorem successful_exchange_appends_pair_witness:
  "\<not> isOnCooldown six_turns (author_id hello)
   \<and> system_message (files (env_with 1000 (Inr ''hi''))) (settings (env_with 1000 (Inr ''hi'')))
       = Inr ''Be kind.''
   \<and> ConversationCache_read six_turns (author_id hello) \<noteq> []
   \<and> ConversationCache_read (fst (chat_with_openai (env_with 1000 (Inr ''hi'')) hello six_turns)) 7
       = [(''assistant'', ''b''), (''user'', ''c''), (''assistant'', ''d''), (''user'', ''e''),
          (''assistant'', ''f''), (''user'', ''hello''), (''assistant'', ''hi'')]"
  using successful_exchange_appends_pair
    [of six_turns hello "env_with 1000 (Inr ''hi'')" "''Be kind.''" "''hi''"]
  by (simp add: six_turns_def sample_defs obs_defs dd_getitem_def system_message_def)

text \<open>
  C6. The completion requests of one run of \<^verbatim>\<open>chat_with_openai\<close>: none when the user is
  on cooldown or the system message cannot be read; otherwise exactly one, for the configured
  model, whose prompt is one \<^verbatim>\<open>system\<close> turn, then the turns of the user's cache in their
  stored order and with their roles, then one \<^verbatim>\<open>user\<close> turn with the message's content.
\<close>

theorem prompt_assembly:
  "requests (fst (snd (chat_with_openai e m st))) =
     (if isOnCooldown st (author_id m) then []
      else case system_message (files e) (settings e) of
             Inl err \<Rightarrow> []
           | Inr sys \<Rightarrow>
               [(openai_model (settings e),
                 (''system'', sys) # ConversationCache_read st (author_id m)
                   @ [(''user'', content m)])])"
proof (cases "isOnCooldown st (author_id m)")
  case True
  then show ?thesis by (simp add: chat_cooldown)
next
  case False
  show ?thesis
  proof (cases "system_message (files e) (settings e)")
    case (Inl err)
    with False show ?thesis by (simp add: chat_file_missing)
  next
    case (Inr sys)
    with False show ?thesis by (simp add: chat_requests build_messages_eq)
  qed
qed

text \<open>
  C1. The bound of the cache by \<^verbatim>\<open>max_cache\<close> does not hold of the code: with the
  default settings (\<^verbatim>\<open>max_cache = 5\<close>), three successful exchanges of user 7, each
  followed by the end of the cooldown, leave six turns in the user's cache. The check of
  line 145 removes one turn where lines 151 and 156 append two.
\<close>

theorem cache_exceeds_max_cache:
  "max_cache (settings (env_with 1000 (Inr ''hi''))) = 5
   \<and> length (ConversationCache_read
        (exchange (env_with 3000 (Inr ''hi'')) hello
          (exchange (env_with 2000 (Inr ''hi'')) hello
            (exchange (env_with 1000 (Inr ''hi'')) hello empty_state))) 7) = 6"
  by (simp add: exchange_def cooldown_user_def sample_defs model_defs obs_defs)

text \<open>
  C3, as stated, fails: after a completion call that raised, the interaction record of the
  user is not the one before the attempt. User 7 mentions the bot, the completion service
  raises \<^verbatim>\<open>OpenAIError\<close>, the error is reported, and the record goes from the default
  to the time and channel of the message.
\<close>

theorem failed_completion_changes_interaction_record:
  "fst (snd (on_message (env_with 1000 (Inl (OpenAIError ''overloaded''))) hello empty_state))
     = [Typing_enter 3, Create_task_keep_typing 3,
        Completion_request ''gpt-3.5-turbo-16k'' [(''system'', ''Be kind.''), (''user'', ''hello'')],
        Typing_task_cancel, Send 3 ''An error occurred: overloaded'', Typing_exit 3]
   \<and> InteractionTracker_get empty_state 7 = \<lparr>time = 0, channel = None\<rparr>
   \<and> InteractionTracker_get
        (fst (on_message (env_with 1000 (Inl (OpenAIError ''overloaded''))) hello empty_state)) 7
       = \<lparr>time = 1001, channel = Some 3\<rparr>"
  by (simp add: sample_defs model_defs obs_defs)

text \<open>
  C3, amended. When an admitted message of a user who is not on cooldown reaches the
  completion call and the call raises, every user's cache reads as before and every user's
  cooldown flag is as before. The interaction record is as before only when sending the
  error notice of line 169 raises in its turn, which it does for an \<^verbatim>\<open>OpenAIError\<close>
  whose notice is longer than 2000 characters: that exception leaves the handler and line
  108 is not reached. In every other case the handler returns and the author's record is
  overwritten with the time of line 109 and the message's channel.
\<close>

theorem failed_completion_state:
  assumes "\<not> author_bot m"
    and "engagement_gate e m st = Inr (True, st1)"
    and "\<not> isOnCooldown st (author_id m)"
    and "system_message (files e) (settings e) = Inr sys"
    and "ChatCompletion_create e (openai_model (settings e))
           (build_messages sys (ConversationCache_read st (author_id m)) (content m)) = Inl err"
  shows "ConversationCache_read (fst (on_message e m st)) v = ConversationCache_read st v
       \<and> isOnCooldown (fst (on_message e m st)) v = isOnCooldown st v
       \<and> (if (case err of
                 OpenAIError s \<Rightarrow> 2000 < length (''An error occurred: '' @ s)
               | _ \<Rightarrow> False)
          then snd (snd (on_message e m st)) = Some HTTPException
             \<and> InteractionTracker_get (fst (on_message e m st)) v
                 = InteractionTracker_get st v
          else snd (snd (on_message e m st)) = None
             \<and> InteractionTracker_get (fst (on_message e m st)) (author_id m)
                 = \<lparr>time = utcnow_at_record e, channel = Some (channel_id m)\<rparr>)"
proof (cases "case err of
                 OpenAIError s \<Rightarrow> 2000 < length (''An error occurred: '' @ s)
               | _ \<Rightarrow> False")
  case True
  then obtain s where err: "err = OpenAIError s"
    and long: "2000 < length (''An error occurred: '' @ s)"
    by (cases err) simp_all
  note obs = gate_obs [OF assms(2)]
  from assms(3,5) obtain evs where
    chat: "chat_with_openai e m st1 = (touched st1 (author_id m), evs, Some HTTPException)"
    using chat_failure_raises [of st1 m e sys s] assms(4) long by (auto simp: obs err)
  have run: "on_message e m st =
      (touched st1 (author_id m),
       Typing_enter (channel_id m) # evs @ [Typing_exit (channel_id m)], Some HTTPException)"
    by (simp add: on_message_admitted [OF assms(1,2)] chat)
  show ?thesis using True by (simp add: run obs)
next
  case False
  then have short: "\<And>s. err = OpenAIError s \<Longrightarrow> length (''An error occurred: '' @ s) \<le> 2000"
    by auto
  note obs = gate_obs [OF assms(2)]
  from assms(3,5) obtain evs where
    chat: "chat_with_openai e m st1 = (touched st1 (author_id m), evs, None)"
    using chat_failure_returns [of st1 m e sys err] assms(4) short by (auto simp: obs)
  have run: "on_message e m st =
      ((touched st1 (author_id m))\<lparr>user_last_interaction :=
          (user_last_interaction (touched st1 (author_id m)))
            (author_id m \<mapsto> \<lparr>time = utcnow_at_record e, channel = Some (channel_id m)\<rparr>)\<rparr>,
       Typing_enter (channel_id m) # evs @ [Typing_exit (channel_id m)], None)"
    by (simp add: on_message_admitted [OF assms(1,2)] chat)
  have "ConversationCache_read (fst (on_message e m st)) v
          = ConversationCache_read (touched st1 (author_id m)) v"
    by (simp add: run ConversationCache_read_def)
  moreover have "isOnCooldown (fst (on_message e m st)) v
          = isOnCooldown (touched st1 (author_id m)) v"
    by (simp add: run isOnCooldown_def)
  moreover have "InteractionTracker_get (fst (on_message e m st)) (author_id m)
           = \<lparr>time = utcnow_at_record e, channel = Some (channel_id m)\<rparr>"
    by (simp add: run InteractionTracker_get_def)
  ultimately show ?thesis using False by (simp add: obs run)
qed

theorem failed_completion_state_witness:
  "\<not> author_bot hello
   \<and> \<not> isOnCooldown empty_state (author_id hello)
   \<and> ConversationCache_read
        (fst (on_message (env_with 1000 (Inl (OpenAIError ''overloaded''))) hello empty_state)) 7 = []
   \<and> \<not> isOnCooldown
        (fst (on_message (env_with 1000 (Inl (OpenAIError ''overloaded''))) hello empty_state)) 7
   \<and> snd (snd (on_message (env_with 1000 (Inl (OpenAIError ''overloaded''))) hello empty_state))
       = None
   \<and> InteractionTracker_get
        (fst (on_message (env_with 1000 (Inl (OpenAIError ''overloaded''))) hello empty_state)) 7
       = \<lparr>time = 1001, channel = Some 3\<rparr>
   \<and> snd (snd (on_message (env_with 1000 (Inl (OpenAIError (replicate 3000 CHR ''x''))))
                 hello empty_state))
       = Some HTTPException
   \<and> InteractionTracker_get
        (fst (on_message (env_with 1000 (Inl (OpenAIError (replicate 3000 CHR ''x''))))
               hello empty_state)) 7
       = \<lparr>time = 0, channel = None\<rparr>"
  using failed_completion_state
    [of hello "env_with 1000 (Inl (OpenAIError ''overloaded''))" empty_state
        "empty_state\<lparr>user_last_interaction := [7 \<mapsto> \<lparr>time = 0, channel = None\<rparr>]\<rparr>"
        "''Be kind.''" "OpenAIError ''overloaded''" 7]
    failed_completion_state
    [of hello "env_with 1000 (Inl (OpenAIError (replicate 3000 CHR ''x'')))" empty_state
        "empty_state\<lparr>user_last_interaction := [7 \<mapsto> \<lparr>time = 0, channel = None\<rparr>]\<rparr>"
        "''Be kind.''" "OpenAIError (replicate 3000 CHR ''x'')" 7]
  by (simp add: sample_defs obs_defs dd_getitem_def system_message_def engagement_gate_def
      replied_to_bot_def)

text \<open>
  C4, as stated, fails: a message sent during the cooldown changes the interaction record.
  User 7, still on cooldown after an exchange at time 1000, writes again at time 5000; the
  record moves from time 1001 to time 5001.
\<close>

theorem cooldown_violation_changes_interaction_record:
  "isOnCooldown on_cooldown 7
   \<and> InteractionTracker_get on_cooldown 7 = \<lparr>time = 1001, channel = Some 3\<rparr>
   \<and> InteractionTracker_get (fst (on_message (env_with 5000 (Inr ''hi'')) hello on_cooldown)) 7
       = \<lparr>time = 5001, channel = Some 3\<rparr>"
  by (simp add: on_cooldown_def sample_defs model_defs obs_defs)

text \<open>
  C4, amended. For an admitted message of a user on cooldown the handler sends the wait
  notice and returns: its only events are the typing context and the notice, so no
  completion request is made and no task is created; every user's cache reads as before
  and every user's cooldown flag is as before; the author's interaction record is
  overwritten with the time of line 109 and the message's channel.
\<close>

theorem cooldown_short_circuit:
  assumes "\<not> author_bot m"
    and "engagement_gate e m st = Inr (True, st1)"
    and "isOnCooldown st (author_id m)"
  shows "snd (on_message e m st) =
           ([Typing_enter (channel_id m),
             Send (channel_id m) ''Please wait a bit before chatting again!'',
             Typing_exit (channel_id m)], None)
       \<and> requests (fst (snd (on_message e m st))) = []
       \<and> ConversationCache_read (fst (on_message e m st)) v = ConversationCache_read st v
       \<and> isOnCooldown (fst (on_message e m st)) v = isOnCooldown st v
       \<and> InteractionTracker_get (fst (on_message e m st)) (author_id m)
           = \<lparr>time = utcnow_at_record e, channel = Some (channel_id m)\<rparr>"
proof -
  note obs = gate_obs [OF assms(2)]
  from assms(3) have "isOnCooldown st1 (author_id m)" by (simp add: obs)
  then have run: "on_message e m st =
      (st1\<lparr>user_last_interaction :=
          (user_last_interaction st1)
            (author_id m \<mapsto> \<lparr>time = utcnow_at_record e, channel = Some (channel_id m)\<rparr>)\<rparr>,
       [Typing_enter (channel_id m),
        Send (channel_id m) ''Please wait a bit before chatting again!'',
        Typing_exit (channel_id m)], None)"
    by (simp add: on_message_admitted [OF assms(1,2)] chat_cooldown)
  have "ConversationCache_read (fst (on_message e m st)) v = ConversationCache_read st1 v"
    by (simp add: run ConversationCache_read_def)
  moreover have "isOnCooldown (fst (on_message e m st)) v = isOnCooldown st1 v"
    by (simp add: run isOnCooldown_def)
  moreover have "InteractionTracker_get (fst (on_message e m st)) (author_id m)
           = \<lparr>time = utcnow_at_record e, channel = Some (channel_id m)\<rparr>"
    by (simp add: run InteractionTracker_get_def)
  ultimately show ?thesis by (simp add: obs run)
qed

theorem cooldown_short_circuit_witness:
  "\<not> author_bot hello
   \<and> isOnCooldown on_cooldown (author_id hello)
   \<and> snd (on_message (env_with 5000 (Inr ''hi'')) hello on_cooldown) =
       ([Typing_enter 3, Send 3 ''Please wait a bit before chatting again!'', Typing_exit 3], None)
   \<and> ConversationCache_read (fst (on_message (env_with 5000 (Inr ''hi'')) hello on_cooldown)) 7
       = [(''user'', ''hello''), (''assistant'', ''hi'')]
   \<and> isOnCooldown (fst (on_message (env_with 5000 (Inr ''hi'')) hello on_cooldown)) 7
   \<and> InteractionTracker_get (fst (on_message (env_with 5000 (Inr ''hi'')) hello on_cooldown)) 7
       = \<lparr>time = 5001, channel = Some 3\<rparr>"
  using cooldown_short_circuit
    [of hello "env_with 5000 (Inr ''hi'')" on_cooldown on_cooldown 7]
  by (simp add: on_cooldown_def sample_defs obs_defs model_defs)

text \<open>
  C5. The gate does not admit every message that mentions the bot: user 7 replies, with
  the bot mentioned, to a message that has been deleted. Lines 90 to 92 read
  \<^verbatim>\<open>.author\<close> of the \<^verbatim>\<open>DeletedReferencedMessage\<close> before the mention is looked at; the
  handler ends with \<^verbatim>\<open>AttributeError\<close>, having sent nothing and changed nothing.
\<close>

theorem mention_with_deleted_reference_raises:
  "bot_user_id (env_with 1000 (Inr ''hi''))
     \<in> set (mentions (hello\<lparr>reference := Some DeletedReferencedMessage\<rparr>))
   \<and> on_message (env_with 1000 (Inr ''hi''))
        (hello\<lparr>reference := Some DeletedReferencedMessage\<rparr>) empty_state
       = (empty_state, [], Some AttributeError)"
  by (simp add: sample_defs model_defs)

text \<open>
  C7. The text loaded once at start-up, \<^verbatim>\<open>SYSTEM_MESSAGE\<close>, is not the one the prompt
  uses: line 129 reads \<^verbatim>\<open>settings.system_message\<close>, which opens the configured file at
  every request. Start-up and a first request see \<^verbatim>\<open>Be kind.\<close>; the file is then
  rewritten, \<^verbatim>\<open>SYSTEM_MESSAGE\<close> still holds the start-up text, and the next request
  carries the new text.
\<close>

theorem system_message_read_per_request:
  "startup [''system_message_copy.txt'' \<mapsto> ''Be kind.'', ''./system_message.txt'' \<mapsto> ''Be kind.'']
     = Inr empty_state
   \<and> requests (fst (snd (on_message (env_with 1000 (Inr ''hi'')) hello empty_state)))
       = [(''gpt-3.5-turbo-16k'', [(''system'', ''Be kind.''), (''user'', ''hello'')])]
   \<and> SYSTEM_MESSAGE (exchange (env_with 1000 (Inr ''hi'')) hello empty_state) = ''Be kind.''
   \<and> requests (fst (snd (on_message
        ((env_with 5000 (Inr ''hi''))\<lparr>files := [''./system_message.txt'' \<mapsto> ''Be rude.'']\<rparr>)
        hello (exchange (env_with 1000 (Inr ''hi'')) hello empty_state))))
       = [(''gpt-3.5-turbo-16k'',
           [(''system'', ''Be rude.''), (''user'', ''hello''), (''assistant'', ''hi''),
            (''user'', ''hello'')])]"
  by (simp add: startup_def exchange_def cooldown_user_def sample_defs model_defs)

text \<open>
  C9. Exceptions leave \<^verbatim>\<open>on_message\<close>. In the gate: a message with a reference that is
  not resolved (here without a mention) ends the handler with \<^verbatim>\<open>AttributeError\<close>. In
  prompt assembly: when the system-message file cannot be read, \<^verbatim>\<open>FileNotFoundError\<close>
  is raised on line 129, before the \<^verbatim>\<open>try\<close> of line 136, and leaves both functions;
  the typing task created on line 127 is never cancelled.
\<close>

theorem exceptions_escape_on_message:
  "on_message (env_with 1000 (Inr ''hi''))
      (hello\<lparr>mentions := [], reference := Some ResolvedNone\<rparr>) empty_state
     = (empty_state, [], Some AttributeError)
   \<and> snd (on_message ((env_with 1000 (Inr ''hi''))\<lparr>files := Map.empty\<rparr>) hello empty_state)
       = ([Typing_enter 3, Create_task_keep_typing 3, Typing_exit 3], Some FileNotFoundError)"
  by (simp add: sample_defs model_defs)

end
